theory Spec2Isabelle
  imports Main
begin

section \<open>Run-time types and values of Go, as the converter sees them through reflect\<close>

text \<open>
  The package \<^verbatim>\<open>struct_converter\<close> is written against Go's \<^verbatim>\<open>reflect\<close> library.  A
  \<^verbatim>\<open>reflect.Type\<close> is modelled by \<open>ty\<close>, a \<^verbatim>\<open>reflect.Value\<close> by \<open>val\<close>.  The fragment covers
  the predeclared and the defined scalar types, pointers, slices, arrays, maps, struct
  types (named, or anonymous when the name is empty) and interface types without methods.
  Channels, functions, complex numbers, embedded fields and recursive type declarations
  are outside the fragment.  A float is carried as its bit pattern: the package never
  computes on one.
\<close>

datatype scalar = SBool | SInt | SInt8 | SInt16 | SInt32 | SInt64
  | SUint | SUint8 | SUint16 | SUint32 | SUint64 | SFloat32 | SFloat64 | SString

datatype kind = KInvalid | KScalar scalar | KArray | KInterface | KMap | KPtr | KSlice | KStruct

text \<open>
  A struct field is \<^verbatim>\<open>reflect.StructField\<close>: its name, its type, its tag (the
  \<^verbatim>\<open>key:"value"\<close> pairs in the order written) and whether it is exported (Go derives that
  from the first letter of the name).
\<close>

datatype ty = Basic scalar string
  | PtrTo ty
  | SliceOf ty
  | ArrayOf nat ty
  | MapOf ty ty
  | InterfaceT string
  | StructT string "sfield list"
and sfield = SField (fName: string) (fType: ty) (fTag: "(string \<times> string) list") (fExported: bool)

datatype lit = LBool bool | LInt int | LFloat int | LString string

text \<open>
  Every value but the zero \<^verbatim>\<open>reflect.Value\<close> (\<open>VInvalid\<close>) carries its type.  \<open>VNil T\<close> is the
  nil pointer, slice, map or interface of type \<open>T\<close>; \<open>VPtr T p\<close> is a non-nil pointer, given by
  the value \<open>p\<close> it points to (the model has no addresses: building a \<open>VPtr\<close> stands for
  allocating the pointee); \<open>VIface T d\<close> is an interface holding the dynamic value \<open>d\<close>.  A map
  lists its entries in the order \<^verbatim>\<open>MapKeys\<close> returns them, which Go leaves unspecified,
  each key with the value \<^verbatim>\<open>MapIndex\<close> finds for it; a map with a key that is not equal to
  itself (a float that is not a number), for which \<^verbatim>\<open>MapIndex\<close> finds none, is outside the
  fragment.
  The field values of a struct stand in the order of the fields of its type.  The capacity
  of a slice is not modelled.
\<close>

datatype val = VInvalid
  | VScalar ty lit
  | VNil ty
  | VPtr ty val
  | VIface ty val
  | VSlice ty "val list"
  | VArray ty "val list"
  | VMap ty "(val \<times> val) list"
  | VStruct ty "val list"

text \<open>
  A call ends in a value, in an \<^verbatim>\<open>error\<close> the function returns, or in a panic of the
  run-time system.  \<open>Err m\<close> is \<^verbatim>\<open>errors.New(m)\<close>.  The text of a panic names the operation
  of reflect that panics, not the kind of the value it was called on.
\<close>

datatype error = Err string | Panic string

fun TKind :: "ty \<Rightarrow> kind" where
  "TKind (Basic k n) = KScalar k"
| "TKind (PtrTo t) = KPtr"
| "TKind (SliceOf t) = KSlice"
| "TKind (ArrayOf n t) = KArray"
| "TKind (MapOf k v) = KMap"
| "TKind (InterfaceT n) = KInterface"
| "TKind (StructT n fs) = KStruct"

fun TypeOf :: "val \<Rightarrow> ty option" where
  "TypeOf VInvalid = None"
| "TypeOf (VScalar T l) = Some T"
| "TypeOf (VNil T) = Some T"
| "TypeOf (VPtr T p) = Some T"
| "TypeOf (VIface T d) = Some T"
| "TypeOf (VSlice T xs) = Some T"
| "TypeOf (VArray T xs) = Some T"
| "TypeOf (VMap T kvs) = Some T"
| "TypeOf (VStruct T vs) = Some T"

definition Kind :: "val \<Rightarrow> kind" where
  "Kind v = (case TypeOf v of None \<Rightarrow> KInvalid | Some T \<Rightarrow> TKind T)"

fun tfields :: "ty \<Rightarrow> sfield list" where
  "tfields (StructT n fs) = fs"
| "tfields t = []"

subsection \<open>Zero values\<close>

fun zero_lit :: "scalar \<Rightarrow> lit" where
  "zero_lit SBool = LBool False"
| "zero_lit SString = LString []"
| "zero_lit SFloat32 = LFloat 0"
| "zero_lit SFloat64 = LFloat 0"
| "zero_lit k = LInt 0"

text \<open>\<^verbatim>\<open>reflect.Zero(T)\<close>, which is also what \<^verbatim>\<open>reflect.New(T).Elem()\<close> holds.\<close>

fun Zero :: "ty \<Rightarrow> val"
and Zero_fields :: "sfield list \<Rightarrow> val list" where
  "Zero (Basic k n) = VScalar (Basic k n) (zero_lit k)"
| "Zero (ArrayOf n t) = VArray (ArrayOf n t) (replicate n (Zero t))"
| "Zero (StructT n fs) = VStruct (StructT n fs) (Zero_fields fs)"
| "Zero t = VNil t"
| "Zero_fields [] = []"
| "Zero_fields (SField n t tg e # fs) = Zero t # Zero_fields fs"

subsection \<open>Assignability and \<^verbatim>\<open>Value.Set\<close>\<close>

text \<open>
  \<^verbatim>\<open>Type.AssignableTo\<close> as reflect defines it: the types are identical, or at most one of
  them is named and their underlying types are identical, or the target is an interface
  that the source implements (every type implements an interface without methods).
\<close>

fun hasName :: "ty \<Rightarrow> bool" where
  "hasName (Basic k n) = True"
| "hasName (InterfaceT n) = (n \<noteq> [])"
| "hasName (StructT n fs) = (n \<noteq> [])"
| "hasName t = False"

fun underlying :: "ty \<Rightarrow> ty" where
  "underlying (InterfaceT n) = InterfaceT []"
| "underlying (StructT n fs) = StructT [] fs"
| "underlying t = t"

definition directlyAssignable :: "ty \<Rightarrow> ty \<Rightarrow> bool" where
  "directlyAssignable T V =
     (if T = V then True
      else if (hasName T \<and> hasName V) \<or> TKind T \<noteq> TKind V then False
      else underlying T = underlying V)"

definition implements :: "ty \<Rightarrow> ty \<Rightarrow> bool" where
  "implements T V = (TKind T = KInterface)"

definition AssignableTo :: "ty \<Rightarrow> ty \<Rightarrow> bool" where
  "AssignableTo t u = (directlyAssignable u t \<or> implements u t)"

text \<open>
  \<^verbatim>\<open>Type.ConvertibleTo\<close> between two scalar types, which reflect decides by their kinds:
  numbers convert to numbers, integers to strings, and types of one kind to each other.
\<close>

fun isInteger :: "scalar \<Rightarrow> bool" where
  "isInteger SBool = False"
| "isInteger SFloat32 = False"
| "isInteger SFloat64 = False"
| "isInteger SString = False"
| "isInteger k = True"

definition isNumeric :: "scalar \<Rightarrow> bool" where
  "isNumeric k = (isInteger k \<or> k = SFloat32 \<or> k = SFloat64)"

definition scalarConvertible :: "scalar \<Rightarrow> scalar \<Rightarrow> bool" where
  "scalarConvertible k k' =
     ((isNumeric k \<and> isNumeric k') \<or> (isInteger k \<and> k' = SString) \<or> k = k')"

fun retype :: "ty \<Rightarrow> val \<Rightarrow> val" where
  "retype T VInvalid = VInvalid"
| "retype T (VScalar S l) = VScalar T l"
| "retype T (VNil S) = VNil T"
| "retype T (VPtr S p) = VPtr T p"
| "retype T (VIface S d) = VIface T d"
| "retype T (VSlice S xs) = VSlice T xs"
| "retype T (VArray S xs) = VArray T xs"
| "retype T (VMap S kvs) = VMap T kvs"
| "retype T (VStruct S vs) = VStruct T vs"

text \<open>
  \<open>assignTo x dst\<close> is what \<^verbatim>\<open>slot.Set(x)\<close> stores in a settable slot of type \<open>dst\<close>: \<open>x\<close>
  itself, typed \<open>dst\<close>, when its type is directly assignable; \<open>x\<close> boxed in the interface
  \<open>dst\<close> when \<open>dst\<close> is an interface.  \<^verbatim>\<open>Set\<close> panics on the zero Value and on a value whose
  type is not assignable to \<open>dst\<close>.
\<close>

definition assignTo :: "val \<Rightarrow> ty \<Rightarrow> error + val" where
  "assignTo x dst =
     (case TypeOf x of
        None \<Rightarrow> Inl (Panic ''reflect: call of reflect.Value.Set on zero Value'')
      | Some X \<Rightarrow>
          if directlyAssignable dst X then Inr (retype dst x)
          else if implements dst X then
            Inr (case x of
                   VIface S d \<Rightarrow> VIface dst d
                 | VNil S \<Rightarrow> if TKind S = KInterface then VNil dst else VIface dst x
                 | _ \<Rightarrow> VIface dst x)
          else Inl (Panic ''reflect.Set: value is not assignable to the type of the slot''))"

subsection \<open>Struct fields, slice elements, map entries\<close>

text \<open>
  \<open>fieldref\<close> is the \<^verbatim>\<open>reflect.Value\<close> that \<^verbatim>\<open>FieldByName\<close> returns for a field of an
  addressable struct: the position of the field, its type (\<^verbatim>\<open>Type()\<close>) and whether it can
  be set (\<^verbatim>\<open>CanSet()\<close>: the field is exported).  \<open>None\<close> is the zero Value of a name that
  the struct does not have (\<^verbatim>\<open>IsValid()\<close> is false).  \<^verbatim>\<open>FieldByName\<close> panics on a value that
  is not a struct.
\<close>

record fieldref =
  slot :: nat
  slotType :: ty
  settable :: bool

fun field_index :: "sfield list \<Rightarrow> string \<Rightarrow> nat option" where
  "field_index [] name = None"
| "field_index (f # fs) name =
     (if fName f = name then Some 0 else map_option Suc (field_index fs name))"

definition FieldByName :: "val \<Rightarrow> string \<Rightarrow> error + fieldref option" where
  "FieldByName v name =
     (case v of
        VStruct T vs \<Rightarrow>
          Inr (if name = [] then None
               else case field_index (tfields T) name of
                      None \<Rightarrow> None
                    | Some i \<Rightarrow>
                        Some \<lparr>slot = i, slotType = fType (tfields T ! i),
                              settable = fExported (tfields T ! i)\<rparr>)
      | _ \<Rightarrow> Inl (Panic ''reflect: call of reflect.Value.FieldByName on non-struct Value''))"

text \<open>\<^verbatim>\<open>targetField.Set(x)\<close> on the field \<open>r\<close> of the struct \<open>target\<close>.\<close>

definition SetField :: "val \<Rightarrow> fieldref \<Rightarrow> val \<Rightarrow> error + val" where
  "SetField target r x =
     (case assignTo x (slotType r) of
        Inl e \<Rightarrow> Inl e
      | Inr y \<Rightarrow>
          (case target of
             VStruct T vs \<Rightarrow> Inr (VStruct T (vs[slot r := y]))
           | _ \<Rightarrow> Inl (Panic ''reflect: call of reflect.Value.Field on non-struct Value'')))"

text \<open>\<^verbatim>\<open>targetSlice.Index(i).Set(x)\<close>.\<close>

definition SetIndex :: "val \<Rightarrow> nat \<Rightarrow> val \<Rightarrow> error + val" where
  "SetIndex s i x =
     (case s of
        VSlice T xs \<Rightarrow>
          (case T of
             SliceOf elemType \<Rightarrow>
               if i < length xs then
                 (case assignTo x elemType of
                    Inl e \<Rightarrow> Inl e
                  | Inr y \<Rightarrow> Inr (VSlice T (xs[i := y])))
               else Inl (Panic ''reflect: slice index out of range'')
           | _ \<Rightarrow> Inl (Panic ''reflect: call of reflect.Value.Index on non-slice Value''))
      | _ \<Rightarrow> Inl (Panic ''reflect: call of reflect.Value.Index on non-slice Value''))"

fun map_update :: "'k \<Rightarrow> 'v \<Rightarrow> ('k \<times> 'v) list \<Rightarrow> ('k \<times> 'v) list" where
  "map_update k v [] = [(k, v)]"
| "map_update k v (p # ps) = (if fst p = k then (k, v) # ps else p # map_update k v ps)"

text \<open>\<^verbatim>\<open>targetMap.SetMapIndex(k, x)\<close>: the entry of an equal key is replaced.\<close>

definition SetMapIndex :: "val \<Rightarrow> val \<Rightarrow> val \<Rightarrow> error + val" where
  "SetMapIndex m k x =
     (case m of
        VMap T kvs \<Rightarrow>
          (case T of
             MapOf keyType elemType \<Rightarrow>
               (case assignTo k keyType of
                  Inl e \<Rightarrow> Inl e
                | Inr k' \<Rightarrow>
                    (case assignTo x elemType of
                       Inl e \<Rightarrow> Inl e
                     | Inr x' \<Rightarrow> Inr (VMap T (map_update k' x' kvs))))
           | _ \<Rightarrow> Inl (Panic ''reflect: call of reflect.Value.SetMapIndex on non-map Value''))
      | _ \<Rightarrow> Inl (Panic ''reflect: call of reflect.Value.SetMapIndex on non-map Value''))"

text \<open>
  \<^verbatim>\<open>StructTag.Get(key)\<close>: the value of the first pair with that key, and the empty string
  when there is none.  A key of a tag is never empty, so \<^verbatim>\<open>Get("")\<close> is the empty string.
\<close>

definition Tag_Get :: "(string \<times> string) list \<Rightarrow> string \<Rightarrow> string" where
  "Tag_Get tag key =
     (if key = [] then [] else case map_of tag key of None \<Rightarrow> [] | Some v \<Rightarrow> v)"

section \<open>The converter of \<^verbatim>\<open>src/struct-converter/converter.go\<close>\<close>

text \<open>
  The four conversion functions call each other; each loop of the source is a function over
  the fields, elements or entries still to be visited, with the target built so far.
  \<^verbatim>\<open>sourceField.CanInterface()\<close> is false exactly for an unexported field, since no value
  the package passes on was itself read from an unexported field.

  \<^verbatim>\<open>src/unnamed/part_001\<close> holds two other revisions of the package, which are not
  modelled: one is this converter with every \<^verbatim>\<open>return err\<close> of a loop replaced by
  \<^verbatim>\<open>continue\<close>; the other (lines 141 to 489) adds the handling of pointers, of the zero
  Value and of coercions to \<open>convertValue\<close>.
\<close>

function (sequential) convertValue :: "val \<Rightarrow> ty \<Rightarrow> error + val"
and convertStruct :: "val \<Rightarrow> ty \<Rightarrow> error + val"
and convertStruct_fields :: "sfield list \<Rightarrow> val list \<Rightarrow> val \<Rightarrow> error + val"
and convertSlice :: "val \<Rightarrow> ty \<Rightarrow> error + val"
and convertSlice_elems :: "nat \<Rightarrow> val list \<Rightarrow> ty \<Rightarrow> val \<Rightarrow> error + val"
and convertMap :: "val \<Rightarrow> ty \<Rightarrow> error + val"
and convertMap_entries :: "(val \<times> val) list \<Rightarrow> ty \<Rightarrow> ty \<Rightarrow> val \<Rightarrow> error + val"
where
  "convertValue source targetType =
     (case Kind source of
        KStruct \<Rightarrow> convertStruct source targetType
      | KSlice \<Rightarrow> convertSlice source targetType
      | KMap \<Rightarrow> convertMap source targetType
      | _ \<Rightarrow>
          (case TypeOf source of
             None \<Rightarrow> Inl (Panic ''reflect: call of reflect.Value.Type on zero Value'')
           | Some S \<Rightarrow>
               if AssignableTo S targetType then Inr source
               else Inl (Err ''incompatible types or unsupported conversion'')))"
| "convertStruct source targetType =
     (case source of
        VStruct S vs \<Rightarrow> convertStruct_fields (tfields S) vs (Zero targetType)
      | _ \<Rightarrow> Inl (Panic ''reflect: call of reflect.Value.NumField on non-struct Value''))"
| "convertStruct_fields [] vs target = Inr target"
| "convertStruct_fields (f # fs) [] target = Inr target"
| "convertStruct_fields (f # fs) (sourceField # vs) target =
     (if \<not> fExported f then convertStruct_fields fs vs target
      else case FieldByName target (fName f) of
             Inl e \<Rightarrow> Inl e
           | Inr None \<Rightarrow> convertStruct_fields fs vs target
           | Inr (Some targetField) \<Rightarrow>
               if settable targetField then
                 (case convertValue sourceField (slotType targetField) of
                    Inl err \<Rightarrow> Inl err
                  | Inr convertedValue \<Rightarrow>
                      (case SetField target targetField convertedValue of
                         Inl e \<Rightarrow> Inl e
                       | Inr target' \<Rightarrow> convertStruct_fields fs vs target'))
               else convertStruct_fields fs vs target)"
| "convertSlice source targetType =
     (case targetType of
        SliceOf elemType \<Rightarrow>
          (case source of
             VSlice S xs \<Rightarrow>
               convertSlice_elems 0 xs elemType
                 (VSlice targetType (replicate (length xs) (Zero elemType)))
           | VArray S xs \<Rightarrow>
               convertSlice_elems 0 xs elemType
                 (VSlice targetType (replicate (length xs) (Zero elemType)))
           | VNil S \<Rightarrow>
               if TKind S = KSlice then Inr (VSlice targetType [])
               else Inl (Panic ''reflect: call of reflect.Value.Len on a value without length'')
           | _ \<Rightarrow> Inl (Panic ''reflect: call of reflect.Value.Len on a value without length''))
      | _ \<Rightarrow> Inl (Err ''target type is not a slice''))"
| "convertSlice_elems i [] elemType targetSlice = Inr targetSlice"
| "convertSlice_elems i (x # xs) elemType targetSlice =
     (case convertValue x elemType of
        Inl err \<Rightarrow> Inl err
      | Inr convertedValue \<Rightarrow>
          (case SetIndex targetSlice i convertedValue of
             Inl e \<Rightarrow> Inl e
           | Inr targetSlice' \<Rightarrow> convertSlice_elems (Suc i) xs elemType targetSlice'))"
| "convertMap source targetType =
     (case targetType of
        MapOf keyType elemType \<Rightarrow>
          (case source of
             VMap S kvs \<Rightarrow> convertMap_entries kvs keyType elemType (VMap targetType [])
           | VNil S \<Rightarrow>
               if TKind S = KMap then Inr (VMap targetType [])
               else Inl (Panic ''reflect: call of reflect.Value.MapKeys on non-map Value'')
           | _ \<Rightarrow> Inl (Panic ''reflect: call of reflect.Value.MapKeys on non-map Value''))
      | _ \<Rightarrow> Inl (Err ''target type is not a map''))"
| "convertMap_entries [] keyType elemType targetMap = Inr targetMap"
| "convertMap_entries ((key, sourceValue) # kvs) keyType elemType targetMap =
     (case convertValue key keyType of
        Inl err \<Rightarrow> Inl err
      | Inr convertedKey \<Rightarrow>
          (case convertValue sourceValue elemType of
             Inl err \<Rightarrow> Inl err
           | Inr convertedValue \<Rightarrow>
               (case SetMapIndex targetMap convertedKey convertedValue of
                  Inl e \<Rightarrow> Inl e
                | Inr targetMap' \<Rightarrow> convertMap_entries kvs keyType elemType targetMap')))"
  by pat_completeness auto

text \<open>
  Every call from a loop is on a part of the value being converted, and the calls from
  \<open>convertValue\<close> to a strategy and from a strategy to its loop keep or shrink it.
\<close>

termination
  apply (relation "measure (case_sum
      (case_sum (\<lambda>(v, T). 3 * size v + 2)
         (case_sum (\<lambda>(v, T). 3 * size v + 1) (\<lambda>(fs, vs, t). 3 * size_list size vs)))
      (case_sum
         (case_sum (\<lambda>(v, T). 3 * size v + 1) (\<lambda>(i, xs, e, t). 3 * size_list size xs))
         (case_sum (\<lambda>(v, T). 3 * size v + 1)
            (\<lambda>(kvs, k, e, t). 3 * size_list (size_prod size size) kvs))))")
  apply simp_all
  done

declare convertValue.simps [simp del]
declare convertStruct.simps [simp del]
declare convertSlice.simps [simp del]
declare convertMap.simps [simp del]

text \<open>
  \<^verbatim>\<open>reflect.ValueOf(x)\<close> takes \<open>x\<close> as an \<^verbatim>\<open>interface{}\<close>: of an interface it sees the dynamic
  value, and of a nil interface nothing.
\<close>

definition ValueOf :: "val \<Rightarrow> val" where
  "ValueOf x =
     (case x of
        VIface T d \<Rightarrow> d
      | VNil T \<Rightarrow> if TKind T = KInterface then VInvalid else VNil T
      | _ \<Rightarrow> x)"

text \<open>\<^verbatim>\<open>targetField.IsValid() && targetField.CanSet()\<close>.\<close>

fun usable :: "fieldref option \<Rightarrow> bool" where
  "usable None = False"
| "usable (Some targetField) = settable targetField"

text \<open>
  The first half of a round of the loop of \<^verbatim>\<open>ConvertStructs\<close> (lines 96 to 123): the target
  field that the round converts into, for the source field \<open>sourceTypeField\<close>.  \<open>Inr None\<close> is a
  round that ends in \<^verbatim>\<open>continue\<close>; a \<^verbatim>\<open>continue\<close> inside the branch on \<open>tagName\<close> is the field
  \<open>None\<close>, which the test of line 121 skips as well.
\<close>

definition ConvertStructs_match :: "sfield \<Rightarrow> val \<Rightarrow> string \<Rightarrow> error + fieldref option" where
  "ConvertStructs_match sourceTypeField targetVal tagName =
     (let tagValue = Tag_Get (fTag sourceTypeField) tagName in
      if \<not> fExported sourceTypeField \<or> tagValue = [] then Inr None
      else
        case (if tagName \<noteq> [] then
                (case (if tagValue \<noteq> [] then FieldByName targetVal tagValue else Inr None) of
                   Inl e \<Rightarrow> Inl e
                 | Inr targetField \<Rightarrow>
                     (case (if \<not> usable targetField
                            then FieldByName targetVal (fName sourceTypeField)
                            else Inr targetField) of
                        Inl e \<Rightarrow> Inl e
                      | Inr targetField \<Rightarrow>
                          if \<not> usable targetField then Inr None else Inr targetField))
              else FieldByName targetVal (fName sourceTypeField)) of
          Inl e \<Rightarrow> Inl e
        | Inr targetField \<Rightarrow> if \<not> usable targetField then Inr None else Inr targetField)"

text \<open>
  The whole round (lines 96 to 130), on the field \<open>sourceTypeField\<close> holding \<open>sourceField\<close>: the
  target after the round, and the error if the round returns one.
\<close>

definition ConvertStructs_field :: "sfield \<Rightarrow> val \<Rightarrow> val \<Rightarrow> string \<Rightarrow> val \<times> error option" where
  "ConvertStructs_field sourceTypeField sourceField targetVal tagName =
     (case ConvertStructs_match sourceTypeField targetVal tagName of
        Inl e \<Rightarrow> (targetVal, Some e)
      | Inr None \<Rightarrow> (targetVal, None)
      | Inr (Some targetField) \<Rightarrow>
          (case convertValue sourceField (slotType targetField) of
             Inl err \<Rightarrow> (targetVal, Some err)
           | Inr convertedValue \<Rightarrow>
               (case SetField targetVal targetField convertedValue of
                  Inl e \<Rightarrow> (targetVal, Some e)
                | Inr targetVal' \<Rightarrow> (targetVal', None))))"

fun ConvertStructs_fields :: "sfield list \<Rightarrow> val list \<Rightarrow> val \<Rightarrow> string \<Rightarrow> val \<times> error option" where
  "ConvertStructs_fields [] vs targetVal tagName = (targetVal, None)"
| "ConvertStructs_fields (f # fs) [] targetVal tagName = (targetVal, None)"
| "ConvertStructs_fields (f # fs) (sourceField # vs) targetVal tagName =
     (case ConvertStructs_field f sourceField targetVal tagName of
        (targetVal', Some err) \<Rightarrow> (targetVal', Some err)
      | (targetVal', None) \<Rightarrow> ConvertStructs_fields fs vs targetVal' tagName)"

text \<open>
  \<^verbatim>\<open>ConvertStructs(source, target, tagName)\<close>.  The arguments are what the two pointers point
  to (\<open>None\<close> for a nil pointer); the result is what \<^verbatim>\<open>*target\<close> holds when the call ends,
  and the error (\<open>None\<close> for \<^verbatim>\<open>nil\<close>).  The call writes into \<^verbatim>\<open>*target\<close> field by field, so
  a call that fails leaves the fields written before the failure.
\<close>

definition ConvertStructs :: "val option \<Rightarrow> val option \<Rightarrow> string \<Rightarrow> val option \<times> error option" where
  "ConvertStructs source target tagName =
     (case source of
        None \<Rightarrow> (target, Some (Panic ''invalid memory address or nil pointer dereference''))
      | Some s \<Rightarrow>
          (let sourceVal = ValueOf s;
               targetVal = (case target of None \<Rightarrow> VInvalid | Some t \<Rightarrow> t)
           in if Kind sourceVal \<noteq> KStruct \<or> Kind targetVal \<noteq> KStruct
              then (target, Some (Err ''source or target is not a struct''))
              else
                (case sourceVal of
                   VStruct S vs \<Rightarrow>
                     (case ConvertStructs_fields (tfields S) vs targetVal tagName of
                        (targetVal', err) \<Rightarrow> (Some targetVal', err))
                 | _ \<Rightarrow> (target, Some (Panic ''reflect: call of reflect.Value.NumField on non-struct Value'')))))"

section \<open>Inputs used as examples\<close>

definition int_t :: ty where "int_t = Basic SInt ''int''"
definition int32_t :: ty where "int32_t = Basic SInt32 ''int32''"
definition int64_t :: ty where "int64_t = Basic SInt64 ''int64''"
definition string_t :: ty where "string_t = Basic SString ''string''"
definition any_t :: ty where "any_t = InterfaceT []"

text \<open>\<^verbatim>\<open>type Source struct { A int }\<close>, \<^verbatim>\<open>type Target struct { A int }\<close>, \<^verbatim>\<open>Source{A: 42}\<close>.\<close>

definition Source1 :: ty where "Source1 = StructT ''Source'' [SField ''A'' int_t [] True]"
definition Target1 :: ty where "Target1 = StructT ''Target'' [SField ''A'' int_t [] True]"
definition source1 :: val where "source1 = VStruct Source1 [VScalar int_t (LInt 42)]"

text \<open>Two struct types of one shape, \<^verbatim>\<open>{ Name string; Age int }\<close>, and \<^verbatim>\<open>Person{"Ann", 30}\<close>.\<close>

definition Person :: ty where
  "Person = StructT ''Person'' [SField ''Name'' string_t [] True, SField ''Age'' int_t [] True]"
definition PersonDTO :: ty where
  "PersonDTO = StructT ''PersonDTO'' [SField ''Name'' string_t [] True, SField ''Age'' int_t [] True]"
definition ann :: val where
  "ann = VStruct Person [VScalar string_t (LString ''Ann''), VScalar int_t (LInt 30)]"

text \<open>
  \<^verbatim>\<open>type Source struct { A int `json:"X"`; B int }\<close>, \<^verbatim>\<open>type Target struct { X int; B int }\<close>,
  \<^verbatim>\<open>Source{A: 1, B: 2}\<close>.
\<close>

definition Source3 :: ty where
  "Source3 = StructT ''Source'' [SField ''A'' int_t [(''json'', ''X'')] True, SField ''B'' int_t [] True]"
definition Target3 :: ty where
  "Target3 = StructT ''Target'' [SField ''X'' int_t [] True, SField ''B'' int_t [] True]"
definition source3 :: val where
  "source3 = VStruct Source3 [VScalar int_t (LInt 1), VScalar int_t (LInt 2)]"

text \<open>\<^verbatim>\<open>type In struct { X int }\<close>, \<^verbatim>\<open>type Out struct { X int }\<close>, \<^verbatim>\<open>In{X: 5}\<close>.\<close>

definition In4 :: ty where "In4 = StructT ''In'' [SField ''X'' int_t [] True]"
definition Out4 :: ty where "Out4 = StructT ''Out'' [SField ''X'' int_t [] True]"
definition in4 :: val where "in4 = VStruct In4 [VScalar int_t (LInt 5)]"

text \<open>\<^verbatim>\<open>[]int{1, 2, 3}\<close>, and \<^verbatim>\<open>[][]interface{}{{}, {1}, {}}\<close>.\<close>

definition ints :: val where
  "ints = VSlice (SliceOf int_t) [VScalar int_t (LInt 1), VScalar int_t (LInt 2), VScalar int_t (LInt 3)]"

definition nested :: val where
  "nested = VSlice (SliceOf (SliceOf any_t))
     [VSlice (SliceOf any_t) [],
      VSlice (SliceOf any_t) [VIface any_t (VScalar int_t (LInt 1))],
      VSlice (SliceOf any_t) []]"

text \<open>
  \<^verbatim>\<open>type Source struct { A int `conv:"A"`; B string `conv:"B"`; C int `conv:"C"` }\<close>,
  \<^verbatim>\<open>type Target struct { A int; B int; C int }\<close>, \<^verbatim>\<open>Source{1, "x", 3}\<close>, and
  \<^verbatim>\<open>map[string]int{"ann": 30, "bob": 41}\<close>.
\<close>

definition Source8 :: ty where
  "Source8 = StructT ''Source''
     [SField ''A'' int_t [(''conv'', ''A'')] True,
      SField ''B'' string_t [(''conv'', ''B'')] True,
      SField ''C'' int_t [(''conv'', ''C'')] True]"
definition Target8 :: ty where
  "Target8 = StructT ''Target''
     [SField ''A'' int_t [] True, SField ''B'' int_t [] True, SField ''C'' int_t [] True]"
definition source8 :: val where
  "source8 = VStruct Source8
     [VScalar int_t (LInt 1), VScalar string_t (LString ''x''), VScalar int_t (LInt 3)]"
definition ages :: val where
  "ages = VMap (MapOf string_t int_t)
     [(VScalar string_t (LString ''ann''), VScalar int_t (LInt 30)),
      (VScalar string_t (LString ''bob''), VScalar int_t (LInt 41))]"

text \<open>
  \<^verbatim>\<open>type Inner struct { X int }\<close>, \<^verbatim>\<open>type Source struct { In Inner `conv:"In"` }\<close>,
  \<^verbatim>\<open>type Target struct { In int }\<close>, \<^verbatim>\<open>Source{In: Inner{X: 7}}\<close>.
\<close>

definition Inner9 :: ty where "Inner9 = StructT ''Inner'' [SField ''X'' int_t [] True]"
definition Source9 :: ty where
  "Source9 = StructT ''Source'' [SField ''In'' Inner9 [(''conv'', ''In'')] True]"
definition Target9 :: ty where "Target9 = StructT ''Target'' [SField ''In'' int_t [] True]"
definition source9 :: val where "source9 = VStruct Source9 [VStruct Inner9 [VScalar int_t (LInt 7)]]"

lemmas example_types = int_t_def int32_t_def int64_t_def string_t_def any_t_def

lemmas reflect_defs = Kind_def AssignableTo_def directlyAssignable_def implements_def
  assignTo_def FieldByName_def SetField_def SetIndex_def SetMapIndex_def Tag_Get_def ValueOf_def

lemmas converter_defs = convertValue.simps convertStruct.simps convertSlice.simps convertMap.simps
  ConvertStructs_match_def ConvertStructs_field_def ConvertStructs_def

section \<open>The type of what a conversion returns\<close>

lemma TypeOf_Zero: "TypeOf (Zero T) = Some T"
  by (cases T) simp_all

lemma TypeOf_retype: "TypeOf x = Some X \<Longrightarrow> TypeOf (retype T x) = Some T"
  by (cases x) simp_all

lemma retype_same: "TypeOf x = Some T \<Longrightarrow> retype T x = x"
  by (cases x) simp_all

lemma directlyAssignable_refl: "directlyAssignable T T"
  by (simp add: directlyAssignable_def)

lemma AssignableTo_refl: "AssignableTo T T"
  by (simp add: AssignableTo_def directlyAssignable_refl)

lemma assignTo_TypeOf: "assignTo x T = Inr y \<Longrightarrow> TypeOf y = Some T"
  by (auto simp add: assignTo_def TypeOf_retype split: option.splits if_splits val.splits)

lemma assignTo_same_type: "TypeOf x = Some T \<Longrightarrow> assignTo x T = Inr x"
  by (simp add: assignTo_def directlyAssignable_refl retype_same)

lemma assignTo_assignable:
  "TypeOf x = Some X \<Longrightarrow> AssignableTo X T \<Longrightarrow> \<exists>y. assignTo x T = Inr y"
  by (auto simp add: assignTo_def AssignableTo_def)

lemma SetField_TypeOf: "SetField target r x = Inr target' \<Longrightarrow> TypeOf target' = TypeOf target"
  by (auto simp add: SetField_def split: sum.splits val.splits)

lemma SetIndex_TypeOf: "SetIndex s i x = Inr s' \<Longrightarrow> TypeOf s' = TypeOf s"
  by (auto simp add: SetIndex_def split: sum.splits val.splits ty.splits if_splits)

lemma SetMapIndex_TypeOf: "SetMapIndex m k x = Inr m' \<Longrightarrow> TypeOf m' = TypeOf m"
  by (auto simp add: SetMapIndex_def split: sum.splits val.splits ty.splits)

lemma convertStruct_fields_TypeOf:
  "convertStruct_fields fs vs target = Inr target' \<Longrightarrow> TypeOf target' = TypeOf target"
proof (induction fs arbitrary: vs target)
  case Nil
  then show ?case by simp
next
  case (Cons f fs)
  show ?case
  proof (cases vs)
    case Nil
    with Cons.prems show ?thesis by simp
  next
    case (Cons sourceField vs')
    with Cons.prems Cons.IH show ?thesis
      by (auto split: if_splits sum.splits option.splits dest: SetField_TypeOf)
  qed
qed

lemma convertSlice_elems_TypeOf:
  "convertSlice_elems i xs elemType targetSlice = Inr s' \<Longrightarrow> TypeOf s' = TypeOf targetSlice"
proof (induction xs arbitrary: i targetSlice)
  case Nil
  then show ?case by simp
next
  case (Cons x xs)
  then show ?case
    by (auto split: sum.splits dest: SetIndex_TypeOf)
qed

lemma convertMap_entries_TypeOf:
  "convertMap_entries kvs keyType elemType targetMap = Inr m' \<Longrightarrow> TypeOf m' = TypeOf targetMap"
proof (induction kvs arbitrary: targetMap)
  case Nil
  then show ?case by simp
next
  case (Cons kv kvs)
  then show ?case
    by (cases kv) (auto split: sum.splits dest: SetMapIndex_TypeOf)
qed

lemma convertStruct_TypeOf: "convertStruct source targetType = Inr v \<Longrightarrow> TypeOf v = Some targetType"
  by (auto simp add: convertStruct.simps TypeOf_Zero split: val.splits dest: convertStruct_fields_TypeOf)

lemma convertSlice_TypeOf: "convertSlice source targetType = Inr v \<Longrightarrow> TypeOf v = Some targetType"
  by (auto simp add: convertSlice.simps split: ty.splits val.splits if_splits dest: convertSlice_elems_TypeOf)

lemma convertMap_TypeOf: "convertMap source targetType = Inr v \<Longrightarrow> TypeOf v = Some targetType"
  by (auto simp add: convertMap.simps split: ty.splits val.splits if_splits dest: convertMap_entries_TypeOf)

lemma convertValue_assignable:
  "convertValue source targetType = Inr v \<Longrightarrow> \<exists>V. TypeOf v = Some V \<and> AssignableTo V targetType"
  by (auto simp add: convertValue.simps AssignableTo_refl
      split: kind.splits option.splits if_splits
      dest: convertStruct_TypeOf convertSlice_TypeOf convertMap_TypeOf)

text \<open>
  Claim C10.  What \<open>convertValue\<close> returns has a type assignable to the target type it was
  asked for, and what \<open>convertStruct\<close>, \<open>convertSlice\<close> and \<open>convertMap\<close> return has exactly
  that type.  So the \<^verbatim>\<open>Set\<close> or \<^verbatim>\<open>SetMapIndex\<close> by which the caller stores the result in a
  slot of the target type does not panic.
\<close>

theorem results_assignable:
  "(convertValue source targetType = Inr v \<longrightarrow>
      (\<exists>V. TypeOf v = Some V \<and> AssignableTo V targetType)) \<and>
   (convertStruct source targetType = Inr v \<longrightarrow> TypeOf v = Some targetType) \<and>
   (convertSlice source targetType = Inr v \<longrightarrow> TypeOf v = Some targetType) \<and>
   (convertMap source targetType = Inr v \<longrightarrow> TypeOf v = Some targetType) \<and>
   (convertValue source targetType = Inr v \<or> convertStruct source targetType = Inr v \<or>
    convertSlice source targetType = Inr v \<or> convertMap source targetType = Inr v \<longrightarrow>
      (\<exists>stored. assignTo v targetType = Inr stored))"
  using convertValue_assignable [of source targetType v]
    convertStruct_TypeOf [of source targetType v]
    convertSlice_TypeOf [of source targetType v]
    convertMap_TypeOf [of source targetType v]
  by (auto simp add: assignTo_same_type dest: assignTo_assignable)

theorem results_assignable_witness:
  "convertValue (VScalar int_t (LInt 1)) any_t = Inr (VScalar int_t (LInt 1)) \<and>
   AssignableTo int_t any_t \<and>
   assignTo (VScalar int_t (LInt 1)) any_t = Inr (VIface any_t (VScalar int_t (LInt 1))) \<and>
   convertStruct source1 Target1 = Inr (VStruct Target1 [VScalar int_t (LInt 42)]) \<and>
   convertSlice ints (SliceOf int_t) = Inr ints \<and>
   convertMap ages (MapOf string_t int_t) = Inr ages \<and>
   TypeOf ages = Some (MapOf string_t int_t)"
  using results_assignable [of "VScalar int_t (LInt 1)" any_t "VScalar int_t (LInt 1)"]
    results_assignable [of source1 Target1 "VStruct Target1 [VScalar int_t (LInt 42)]"]
    results_assignable [of ints "SliceOf int_t" ints]
    results_assignable [of ages "MapOf string_t int_t" ages]
  by (simp add: source1_def Source1_def Target1_def ints_def ages_def example_types reflect_defs converter_defs)

section \<open>Slices are converted element by element\<close>

lemma convertValue_exact_type:
  assumes "convertValue source targetType = Inr v" and "TKind targetType \<noteq> KInterface"
  shows "TypeOf v = Some targetType"
proof -
  from assms(1) obtain V where V: "TypeOf v = Some V" "AssignableTo V targetType"
    using convertValue_assignable by blast
  show ?thesis
  proof (cases "Kind source = KStruct \<or> Kind source = KSlice \<or> Kind source = KMap")
    case True
    with assms(1) show ?thesis
      by (auto simp add: convertValue.simps dest: convertStruct_TypeOf convertSlice_TypeOf convertMap_TypeOf)
  next
    case False
    with assms(1) have vs: "v = source" and a: "AssignableTo V targetType"
      using V by (auto simp add: convertValue.simps split: kind.splits option.splits if_splits)
    from False vs V have k: "TKind V \<noteq> KStruct"
      by (simp add: Kind_def)
    from a assms(2) have "directlyAssignable targetType V"
      by (simp add: AssignableTo_def implements_def)
    with k assms(2) have "targetType = V"
      by (cases V; cases targetType) (auto simp add: directlyAssignable_def split: if_splits)
    with V show ?thesis by simp
  qed
qed

lemma convertSlice_elems_ok:
  assumes "\<forall>x\<in>set xs. \<exists>y. convertValue x elemType = Inr y"
    and "i + length xs \<le> length ys"
  shows "\<exists>zs. convertSlice_elems i xs elemType (VSlice (SliceOf elemType) ys)
            = Inr (VSlice (SliceOf elemType) (take i ys @ zs @ drop (i + length xs) ys))
          \<and> length zs = length xs
          \<and> (\<forall>j<length xs. \<exists>y. convertValue (xs ! j) elemType = Inr y
                \<and> assignTo y elemType = Inr (zs ! j))"
  using assms
proof (induction xs arbitrary: i ys)
  case Nil
  then show ?case by simp
next
  case (Cons x xs)
  from Cons.prems(1) obtain y where y: "convertValue x elemType = Inr y" by auto
  then obtain y' where y': "assignTo y elemType = Inr y'"
    using convertValue_assignable assignTo_assignable by blast
  from Cons.prems(2) have i: "i < length ys" by simp
  let ?ys = "ys[i := y']"
  have step: "convertSlice_elems i (x # xs) elemType (VSlice (SliceOf elemType) ys)
      = convertSlice_elems (Suc i) xs elemType (VSlice (SliceOf elemType) ?ys)"
    using y y' i by (simp add: SetIndex_def)
  from Cons.prems have "\<forall>x\<in>set xs. \<exists>y. convertValue x elemType = Inr y"
    and "Suc i + length xs \<le> length ?ys" by simp_all
  from Cons.IH [OF this] obtain zs where zs:
    "convertSlice_elems (Suc i) xs elemType (VSlice (SliceOf elemType) ?ys)
       = Inr (VSlice (SliceOf elemType) (take (Suc i) ?ys @ zs @ drop (Suc i + length xs) ?ys))"
    "length zs = length xs"
    "\<forall>j<length xs. \<exists>y. convertValue (xs ! j) elemType = Inr y \<and> assignTo y elemType = Inr (zs ! j)"
    by blast
  have t: "take (Suc i) ?ys = take i ys @ [y']"
    using i by (simp add: take_Suc_conv_app_nth)
  have d: "drop (Suc i + length xs) ?ys = drop (i + length (x # xs)) ys"
    by simp
  have elems: "\<forall>j<length (x # xs). \<exists>y. convertValue ((x # xs) ! j) elemType = Inr y
      \<and> assignTo y elemType = Inr ((y' # zs) ! j)"
  proof (intro allI impI)
    fix j assume "j < length (x # xs)"
    then show "\<exists>y. convertValue ((x # xs) ! j) elemType = Inr y \<and> assignTo y elemType = Inr ((y' # zs) ! j)"
      using y y' zs(3) by (cases j) auto
  qed
  show ?case
    apply (rule exI [of _ "y' # zs"])
    using step zs(1) zs(2) t d elems by simp
qed

lemma convertSlice_elems_first_failure:
  assumes "i < length xs"
    and "convertValue (xs ! i) elemType = Inl err"
    and "\<forall>j<i. \<exists>y. convertValue (xs ! j) elemType = Inr y"
    and "k + length xs \<le> length ys"
  shows "convertSlice_elems k xs elemType (VSlice (SliceOf elemType) ys) = Inl err"
  using assms
proof (induction xs arbitrary: i k ys)
  case Nil
  then show ?case by simp
next
  case (Cons x xs)
  show ?case
  proof (cases i)
    case 0
    with Cons.prems show ?thesis by simp
  next
    case (Suc i')
    with Cons.prems(3) obtain y where y: "convertValue x elemType = Inr y" by fastforce
    then obtain y' where y': "assignTo y elemType = Inr y'"
      using convertValue_assignable assignTo_assignable by blast
    from Cons.prems(4) have k: "k < length ys" by simp
    have step: "convertSlice_elems k (x # xs) elemType (VSlice (SliceOf elemType) ys)
        = convertSlice_elems (Suc k) xs elemType (VSlice (SliceOf elemType) (ys[k := y']))"
      using y y' k by (simp add: SetIndex_def)
    have "convertSlice_elems (Suc k) xs elemType (VSlice (SliceOf elemType) (ys[k := y'])) = Inl err"
    proof (rule Cons.IH [of i'])
      show "i' < length xs" using Cons.prems(1) Suc by simp
      show "convertValue (xs ! i') elemType = Inl err" using Cons.prems(2) Suc by simp
      show "\<forall>j<i'. \<exists>y. convertValue (xs ! j) elemType = Inr y"
        using Cons.prems(3) Suc by fastforce
      show "Suc k + length xs \<le> length (ys[k := y'])" using Cons.prems(4) by simp
    qed
    with step show ?thesis by simp
  qed
qed

lemma convertSlice_elems_some_failure:
  "\<exists>x\<in>set xs. \<exists>err. convertValue x elemType = Inl err \<Longrightarrow> k + length xs \<le> length ys \<Longrightarrow>
   \<exists>err. convertSlice_elems k xs elemType (VSlice (SliceOf elemType) ys) = Inl err"
proof (induction xs arbitrary: k ys)
  case Nil
  then show ?case by simp
next
  case (Cons x xs)
  show ?case
  proof (cases "convertValue x elemType")
    case (Inl err)
    then show ?thesis by simp
  next
    case (Inr y)
    then obtain y' where y': "assignTo y elemType = Inr y'"
      using convertValue_assignable assignTo_assignable by blast
    from Inr Cons.prems(1) have rest: "\<exists>x\<in>set xs. \<exists>err. convertValue x elemType = Inl err"
      by auto
    from Cons.prems(2) have k: "k < length ys" and len: "Suc k + length xs \<le> length (ys[k := y'])"
      by simp_all
    from Cons.IH [OF rest len] Inr y' k show ?thesis
      by (simp add: SetIndex_def)
  qed
qed

text \<open>
  Claim C7.  \<open>convertSlice\<close> returns the error \<^verbatim>\<open>target type is not a slice\<close> for a target
  type of any other kind, whatever the source.  For a slice type and a source sequence \<open>xs\<close>
  all of whose elements convert, it returns a slice of the length of \<open>xs\<close> whose element \<open>j\<close>
  is what the conversion of \<open>xs ! j\<close> returned, as \<^verbatim>\<open>Set\<close> stores it (unchanged, unless the
  element type is an interface, which boxes it).  If the conversion of an element fails,
  \<open>convertSlice\<close> fails, with the failure of the first such element.  A nil slice is converted
  into the empty slice.
\<close>

theorem convertSlice_elementwise:
  "(TKind targetType \<noteq> KSlice \<longrightarrow>
      convertSlice source targetType = Inl (Err ''target type is not a slice'')) \<and>
   ((source = VSlice S xs \<or> source = VArray S xs) \<and>
    (\<forall>x\<in>set xs. \<exists>y. convertValue x elemType = Inr y) \<longrightarrow>
      (\<exists>zs. convertSlice source (SliceOf elemType) = Inr (VSlice (SliceOf elemType) zs) \<and>
            length zs = length xs \<and>
            (\<forall>j<length xs. \<exists>y. convertValue (xs ! j) elemType = Inr y \<and>
                 assignTo y elemType = Inr (zs ! j) \<and>
                 (TKind elemType \<noteq> KInterface \<longrightarrow> zs ! j = y)))) \<and>
   ((source = VSlice S xs \<or> source = VArray S xs) \<and> i < length xs \<and>
    convertValue (xs ! i) elemType = Inl err \<and>
    (\<forall>j<i. \<exists>y. convertValue (xs ! j) elemType = Inr y) \<longrightarrow>
      convertSlice source (SliceOf elemType) = Inl err) \<and>
   ((source = VSlice S xs \<or> source = VArray S xs) \<and>
    (\<exists>x\<in>set xs. \<exists>e. convertValue x elemType = Inl e) \<longrightarrow>
      (\<exists>e. convertSlice source (SliceOf elemType) = Inl e)) \<and>
   (TKind S = KSlice \<longrightarrow>
      convertSlice (VNil S) (SliceOf elemType) = Inr (VSlice (SliceOf elemType) []))"
proof (intro conjI impI)
  assume "TKind S = KSlice"
  then show "convertSlice (VNil S) (SliceOf elemType) = Inr (VSlice (SliceOf elemType) [])"
    by (simp add: convertSlice.simps)
next
  assume "TKind targetType \<noteq> KSlice"
  then show "convertSlice source targetType = Inl (Err ''target type is not a slice'')"
    by (cases targetType) (simp_all add: convertSlice.simps)
next
  assume a: "(source = VSlice S xs \<or> source = VArray S xs) \<and>
    (\<forall>x\<in>set xs. \<exists>y. convertValue x elemType = Inr y)"
  let ?ys = "replicate (length xs) (Zero elemType)"
  from a have "\<forall>x\<in>set xs. \<exists>y. convertValue x elemType = Inr y" by simp
  moreover have "0 + length xs \<le> length ?ys" by simp
  ultimately obtain zs where zs:
    "convertSlice_elems 0 xs elemType (VSlice (SliceOf elemType) ?ys)
       = Inr (VSlice (SliceOf elemType) (take 0 ?ys @ zs @ drop (0 + length xs) ?ys))"
    "length zs = length xs"
    "\<forall>j<length xs. \<exists>y. convertValue (xs ! j) elemType = Inr y \<and> assignTo y elemType = Inr (zs ! j)"
    using convertSlice_elems_ok [of xs elemType 0 ?ys] by blast
  have exact: "\<forall>j<length xs. \<exists>y. convertValue (xs ! j) elemType = Inr y \<and>
      assignTo y elemType = Inr (zs ! j) \<and> (TKind elemType \<noteq> KInterface \<longrightarrow> zs ! j = y)"
  proof (intro allI impI)
    fix j assume "j < length xs"
    with zs(3) obtain y where y: "convertValue (xs ! j) elemType = Inr y"
      "assignTo y elemType = Inr (zs ! j)" by blast
    have "TKind elemType \<noteq> KInterface \<longrightarrow> zs ! j = y"
    proof
      assume "TKind elemType \<noteq> KInterface"
      with y(1) have "TypeOf y = Some elemType" by (rule convertValue_exact_type)
      then have "assignTo y elemType = Inr y" by (rule assignTo_same_type)
      with y(2) show "zs ! j = y" by simp
    qed
    with y show "\<exists>y. convertValue (xs ! j) elemType = Inr y \<and>
      assignTo y elemType = Inr (zs ! j) \<and> (TKind elemType \<noteq> KInterface \<longrightarrow> zs ! j = y)"
      by blast
  qed
  from a zs(1) have "convertSlice source (SliceOf elemType) = Inr (VSlice (SliceOf elemType) zs)"
    by (auto simp add: convertSlice.simps)
  with zs(2) exact
  show "\<exists>zs. convertSlice source (SliceOf elemType) = Inr (VSlice (SliceOf elemType) zs) \<and>
            length zs = length xs \<and>
            (\<forall>j<length xs. \<exists>y. convertValue (xs ! j) elemType = Inr y \<and>
                 assignTo y elemType = Inr (zs ! j) \<and>
                 (TKind elemType \<noteq> KInterface \<longrightarrow> zs ! j = y))"
    by blast
next
  assume a: "(source = VSlice S xs \<or> source = VArray S xs) \<and> i < length xs \<and>
    convertValue (xs ! i) elemType = Inl err \<and>
    (\<forall>j<i. \<exists>y. convertValue (xs ! j) elemType = Inr y)"
  then have "convertSlice_elems 0 xs elemType
      (VSlice (SliceOf elemType) (replicate (length xs) (Zero elemType))) = Inl err"
    using convertSlice_elems_first_failure [of i xs elemType err 0 "replicate (length xs) (Zero elemType)"]
    by simp
  with a show "convertSlice source (SliceOf elemType) = Inl err"
    by (auto simp add: convertSlice.simps)
next
  assume a: "(source = VSlice S xs \<or> source = VArray S xs) \<and>
    (\<exists>x\<in>set xs. \<exists>e. convertValue x elemType = Inl e)"
  then have "\<exists>e. convertSlice_elems 0 xs elemType
      (VSlice (SliceOf elemType) (replicate (length xs) (Zero elemType))) = Inl e"
    using convertSlice_elems_some_failure [of xs elemType 0 "replicate (length xs) (Zero elemType)"]
    by simp
  with a show "\<exists>e. convertSlice source (SliceOf elemType) = Inl e"
    by (auto simp add: convertSlice.simps)
qed

theorem convertSlice_elementwise_witness:
  "convertSlice ints int_t = Inl (Err ''target type is not a slice'') \<and>
   list_all (\<lambda>x. convertValue x int_t = Inr x)
     [VScalar int_t (LInt 1), VScalar int_t (LInt 2), VScalar int_t (LInt 3)] \<and>
   convertSlice ints (SliceOf int_t) = Inr ints \<and>
   convertValue (VSlice (SliceOf any_t) []) (SliceOf int_t) = Inr (VSlice (SliceOf int_t) []) \<and>
   convertValue (VSlice (SliceOf any_t) [VIface any_t (VScalar int_t (LInt 1))]) (SliceOf int_t) =
     Inl (Err ''incompatible types or unsupported conversion'') \<and>
   convertSlice nested (SliceOf (SliceOf int_t)) =
     Inl (Err ''incompatible types or unsupported conversion'') \<and>
   convertSlice (VNil (SliceOf int_t)) (SliceOf int_t) = Inr (VSlice (SliceOf int_t) [])"
  using convertSlice_elementwise [of int_t ints "SliceOf int_t"
      "[VScalar int_t (LInt 1), VScalar int_t (LInt 2), VScalar int_t (LInt 3)]" int_t 0 "Err []"]
    convertSlice_elementwise [of "SliceOf (SliceOf int_t)" nested "SliceOf (SliceOf any_t)"
      "[VSlice (SliceOf any_t) [],
        VSlice (SliceOf any_t) [VIface any_t (VScalar int_t (LInt 1))],
        VSlice (SliceOf any_t) []]" "SliceOf int_t" 1
      "Err ''incompatible types or unsupported conversion''"]
  by (simp add: ints_def nested_def example_types reflect_defs converter_defs)

section \<open>The first failure ends the conversion\<close>

lemma convertStruct_fields_append:
  "length fs1 = length vs1 \<Longrightarrow>
   convertStruct_fields (fs1 @ fs2) (vs1 @ vs2) target =
     (case convertStruct_fields fs1 vs1 target of
        Inl e \<Rightarrow> Inl e
      | Inr t1 \<Rightarrow> convertStruct_fields fs2 vs2 t1)"
proof (induction fs1 arbitrary: vs1 target)
  case Nil
  then show ?case by simp
next
  case (Cons f fs1)
  then obtain v vs1' where vs1: "vs1 = v # vs1'" by (cases vs1) auto
  with Cons.prems have len: "length fs1 = length vs1'" by simp
  show ?case
    unfolding vs1 by (simp add: Cons.IH [OF len] split: sum.splits option.splits)
qed

lemma convertSlice_elems_append:
  "convertSlice_elems i (xs1 @ xs2) elemType targetSlice =
     (case convertSlice_elems i xs1 elemType targetSlice of
        Inl e \<Rightarrow> Inl e
      | Inr t1 \<Rightarrow> convertSlice_elems (i + length xs1) xs2 elemType t1)"
  by (induction xs1 arbitrary: i targetSlice) (simp_all split: sum.splits)

lemma convertMap_entries_append:
  "convertMap_entries (kvs1 @ kvs2) keyType elemType targetMap =
     (case convertMap_entries kvs1 keyType elemType targetMap of
        Inl e \<Rightarrow> Inl e
      | Inr t1 \<Rightarrow> convertMap_entries kvs2 keyType elemType t1)"
proof (induction kvs1 arbitrary: targetMap)
  case Nil
  then show ?case by simp
next
  case (Cons kv kvs1)
  then show ?case by (cases kv) (simp split: sum.splits)
qed

lemma ConvertStructs_fields_append:
  "length fs1 = length vs1 \<Longrightarrow>
   ConvertStructs_fields (fs1 @ fs2) (vs1 @ vs2) target tagName =
     (case ConvertStructs_fields fs1 vs1 target tagName of
        (t1, Some err) \<Rightarrow> (t1, Some err)
      | (t1, None) \<Rightarrow> ConvertStructs_fields fs2 vs2 t1 tagName)"
proof (induction fs1 arbitrary: vs1 target)
  case Nil
  then show ?case by simp
next
  case (Cons f fs1)
  then obtain v vs1' where vs1: "vs1 = v # vs1'" by (cases vs1) auto
  with Cons.prems have len: "length fs1 = length vs1'" by simp
  show ?case
    unfolding vs1 by (simp add: Cons.IH [OF len] split: prod.splits option.splits)
qed

text \<open>
  Claim C8.  \<open>convertValue\<close> returns what the strategy it calls returns, a failure included.
  A strategy whose loop has converted a first part of the fields, elements or entries and
  then meets one whose conversion fails returns that failure, whatever follows.
  \<open>ConvertStructs\<close> does the same: it returns the failure of the first field that fails, and
  the target is left as the fields before it made it; no later field is visited.
\<close>

theorem failure_propagates:
  "(Kind source = KStruct \<longrightarrow> convertValue source targetType = convertStruct source targetType) \<and>
   (Kind source = KSlice \<longrightarrow> convertValue source targetType = convertSlice source targetType) \<and>
   (Kind source = KMap \<longrightarrow> convertValue source targetType = convertMap source targetType) \<and>
   (tfields S = fs1 @ f # fs2 \<and> length fs1 = length vs1 \<and>
    convertStruct_fields fs1 vs1 (Zero targetType) = Inr t1 \<and> fExported f \<and>
    FieldByName t1 (fName f) = Inr (Some targetField) \<and> settable targetField \<and>
    convertValue sourceField (slotType targetField) = Inl err \<longrightarrow>
      convertStruct (VStruct S (vs1 @ sourceField # vs2)) targetType = Inl err) \<and>
   (list_all (\<lambda>y. \<exists>c. convertValue y elemType = Inr c) xs1 \<and> convertValue x elemType = Inl err \<longrightarrow>
      convertSlice (VSlice S (xs1 @ x # xs2)) (SliceOf elemType) = Inl err) \<and>
   (convertMap_entries kvs1 keyType elemType (VMap (MapOf keyType elemType) []) = Inr m1 \<and>
    (convertValue key keyType = Inl err \<or>
     (\<exists>convertedKey. convertValue key keyType = Inr convertedKey) \<and>
       convertValue sourceValue elemType = Inl err) \<longrightarrow>
      convertMap (VMap S (kvs1 @ (key, sourceValue) # kvs2)) (MapOf keyType elemType) = Inl err) \<and>
   (ValueOf s = VStruct S (vs1 @ sourceField # vs2) \<and> tfields S = fs1 @ f # fs2 \<and>
    length fs1 = length vs1 \<and> Kind targetVal = KStruct \<and>
    ConvertStructs_fields fs1 vs1 targetVal tagName = (t2, None) \<and>
    ConvertStructs_match f t2 tagName = Inr (Some targetField) \<and>
    convertValue sourceField (slotType targetField) = Inl err \<longrightarrow>
      ConvertStructs (Some s) (Some targetVal) tagName = (Some t2, Some err))"
proof (intro conjI impI)
  show "Kind source = KStruct \<Longrightarrow> convertValue source targetType = convertStruct source targetType"
    by (simp add: convertValue.simps)
  show "Kind source = KSlice \<Longrightarrow> convertValue source targetType = convertSlice source targetType"
    by (simp add: convertValue.simps)
  show "Kind source = KMap \<Longrightarrow> convertValue source targetType = convertMap source targetType"
    by (simp add: convertValue.simps)
next
  assume "tfields S = fs1 @ f # fs2 \<and> length fs1 = length vs1 \<and>
    convertStruct_fields fs1 vs1 (Zero targetType) = Inr t1 \<and> fExported f \<and>
    FieldByName t1 (fName f) = Inr (Some targetField) \<and> settable targetField \<and>
    convertValue sourceField (slotType targetField) = Inl err"
  then show "convertStruct (VStruct S (vs1 @ sourceField # vs2)) targetType = Inl err"
    by (simp add: convertStruct.simps convertStruct_fields_append)
next
  assume a: "list_all (\<lambda>y. \<exists>c. convertValue y elemType = Inr c) xs1 \<and> convertValue x elemType = Inl err"
  let ?xs = "xs1 @ x # xs2"
  have "convertSlice_elems 0 ?xs elemType
      (VSlice (SliceOf elemType) (replicate (length ?xs) (Zero elemType))) = Inl err"
  proof (rule convertSlice_elems_first_failure [of "length xs1"])
    show "length xs1 < length ?xs" by simp
    show "convertValue (?xs ! length xs1) elemType = Inl err" using a by simp
    show "\<forall>j<length xs1. \<exists>y. convertValue (?xs ! j) elemType = Inr y"
      using a by (simp add: list_all_length nth_append)
    show "0 + length ?xs \<le> length (replicate (length ?xs) (Zero elemType))" by simp
  qed
  then show "convertSlice (VSlice S (xs1 @ x # xs2)) (SliceOf elemType) = Inl err"
    by (simp add: convertSlice.simps)
next
  assume "convertMap_entries kvs1 keyType elemType (VMap (MapOf keyType elemType) []) = Inr m1 \<and>
    (convertValue key keyType = Inl err \<or>
     (\<exists>convertedKey. convertValue key keyType = Inr convertedKey) \<and>
       convertValue sourceValue elemType = Inl err)"
  then show "convertMap (VMap S (kvs1 @ (key, sourceValue) # kvs2)) (MapOf keyType elemType) = Inl err"
    by (auto simp add: convertMap.simps convertMap_entries_append)
next
  assume a: "ValueOf s = VStruct S (vs1 @ sourceField # vs2) \<and> tfields S = fs1 @ f # fs2 \<and>
    length fs1 = length vs1 \<and> Kind targetVal = KStruct \<and>
    ConvertStructs_fields fs1 vs1 targetVal tagName = (t2, None) \<and>
    ConvertStructs_match f t2 tagName = Inr (Some targetField) \<and>
    convertValue sourceField (slotType targetField) = Inl err"
  then have S: "TKind S = KStruct" by (cases S) simp_all
  from a have "ConvertStructs_field f sourceField t2 tagName = (t2, Some err)"
    by (simp add: ConvertStructs_field_def)
  with a have "ConvertStructs_fields (fs1 @ f # fs2) (vs1 @ sourceField # vs2) targetVal tagName
      = (t2, Some err)"
    by (simp add: ConvertStructs_fields_append)
  with a S show "ConvertStructs (Some s) (Some targetVal) tagName = (Some t2, Some err)"
    by (simp add: ConvertStructs_def Kind_def)
qed

theorem failure_propagates_witness:
  "Kind source8 = KStruct \<and> convertValue source8 Target8 = convertStruct source8 Target8 \<and>
   convertValue (VScalar int_t (LInt 1)) int_t = Inr (VScalar int_t (LInt 1)) \<and>
   convertValue (VScalar string_t (LString ''x'')) int_t =
     Inl (Err ''incompatible types or unsupported conversion'') \<and>
   convertStruct source8 Target8 = Inl (Err ''incompatible types or unsupported conversion'') \<and>
   convertSlice nested (SliceOf (SliceOf int_t)) =
     Inl (Err ''incompatible types or unsupported conversion'') \<and>
   convertMap ages (MapOf string_t string_t) =
     Inl (Err ''incompatible types or unsupported conversion'') \<and>
   ConvertStructs (Some source8) (Some (Zero Target8)) ''conv'' =
     (Some (VStruct Target8 [VScalar int_t (LInt 1), VScalar int_t (LInt 0), VScalar int_t (LInt 0)]),
      Some (Err ''incompatible types or unsupported conversion''))"
  using failure_propagates [where source = source8 and targetType = Target8 and S = Source8
      and ?fs1.0 = "[SField ''A'' int_t [(''conv'', ''A'')] True]"
      and f = "SField ''B'' string_t [(''conv'', ''B'')] True"
      and ?fs2.0 = "[SField ''C'' int_t [(''conv'', ''C'')] True]"
      and ?vs1.0 = "[VScalar int_t (LInt 1)]"
      and sourceField = "VScalar string_t (LString ''x'')"
      and ?vs2.0 = "[VScalar int_t (LInt 3)]"
      and ?t1.0 = "VStruct Target8 [VScalar int_t (LInt 1), VScalar int_t (LInt 0), VScalar int_t (LInt 0)]"
      and ?t2.0 = "VStruct Target8 [VScalar int_t (LInt 1), VScalar int_t (LInt 0), VScalar int_t (LInt 0)]"
      and targetField = "\<lparr>slot = 1, slotType = int_t, settable = True\<rparr>"
      and err = "Err ''incompatible types or unsupported conversion''"
      and s = source8 and targetVal = "Zero Target8" and tagName = "''conv''"]
    failure_propagates [where S = "SliceOf (SliceOf any_t)" and elemType = "SliceOf int_t"
      and ?xs1.0 = "[VSlice (SliceOf any_t) []]"
      and x = "VSlice (SliceOf any_t) [VIface any_t (VScalar int_t (LInt 1))]"
      and ?xs2.0 = "[VSlice (SliceOf any_t) []]"
      and err = "Err ''incompatible types or unsupported conversion''"]
    failure_propagates [where S = "MapOf string_t int_t" and keyType = string_t
      and elemType = string_t and ?kvs1.0 = "[]" and ?m1.0 = "VMap (MapOf string_t string_t) []"
      and key = "VScalar string_t (LString ''ann'')" and sourceValue = "VScalar int_t (LInt 30)"
      and ?kvs2.0 = "[(VScalar string_t (LString ''bob''), VScalar int_t (LInt 41))]"
      and err = "Err ''incompatible types or unsupported conversion''"]
  by (simp add: source8_def Source8_def Target8_def ages_def nested_def example_types reflect_defs converter_defs)

section \<open>Fields without a tag value\<close>

lemma ConvertStructs_match_no_tag:
  "Tag_Get (fTag f) tagName = [] \<Longrightarrow> ConvertStructs_match f t tagName = Inr None"
  by (simp add: ConvertStructs_match_def)

lemma ConvertStructs_fields_no_tags:
  "\<forall>f\<in>set fs. Tag_Get (fTag f) tagName = [] \<Longrightarrow> ConvertStructs_fields fs vs t tagName = (t, None)"
proof (induction fs arbitrary: vs)
  case Nil
  then show ?case by simp
next
  case (Cons f fs)
  then show ?case
    by (cases vs) (simp_all add: ConvertStructs_field_def ConvertStructs_match_no_tag)
qed

text \<open>
  Claim C1 says that with an empty \<open>tagName\<close> the fields are matched by name and copied.
  The function does not do that.  Line 99 skips a field whose tag value under \<open>tagName\<close> is
  empty, and \<^verbatim>\<open>Tag.Get("")\<close> is always empty: with an empty \<open>tagName\<close> every round ends at
  line 100, the branch of line 118 that matches by name is never reached, and the call
  returns \<^verbatim>\<open>nil\<close> with the target untouched.
\<close>

theorem empty_tagName_copies_nothing:
  "ValueOf source = VStruct S vs \<Longrightarrow> TKind S = KStruct \<Longrightarrow> Kind target = KStruct \<Longrightarrow>
   ConvertStructs (Some source) (Some target) [] = (Some target, None)"
  by (simp add: ConvertStructs_def Kind_def ConvertStructs_fields_no_tags Tag_Get_def)

theorem empty_tagName_copies_nothing_witness:
  "ValueOf source1 = VStruct Source1 [VScalar int_t (LInt 42)] \<and> TKind Source1 = KStruct \<and>
   Kind (Zero Target1) = KStruct \<and>
   FieldByName (Zero Target1) ''A'' = Inr (Some \<lparr>slot = 0, slotType = int_t, settable = True\<rparr>) \<and>
   ConvertStructs (Some source1) (Some (Zero Target1)) [] =
     (Some (VStruct Target1 [VScalar int_t (LInt 0)]), None)"
  using empty_tagName_copies_nothing [of source1 Source1 "[VScalar int_t (LInt 42)]" "Zero Target1"]
  by (simp add: source1_def Source1_def Target1_def example_types reflect_defs)

text \<open>
  Claim C2 says that between two struct types of one shape the call leaves the target equal
  to the source.  By the same test of line 99, a source none of whose fields has a tag value
  under \<open>tagName\<close> is not copied at all, under any \<open>tagName\<close>: the target keeps what it held.
\<close>

theorem untagged_fields_copy_nothing:
  "ValueOf source = VStruct S vs \<Longrightarrow> TKind S = KStruct \<Longrightarrow> Kind target = KStruct \<Longrightarrow>
   \<forall>f\<in>set (tfields S). Tag_Get (fTag f) tagName = [] \<Longrightarrow>
   ConvertStructs (Some source) (Some target) tagName = (Some target, None)"
  by (simp add: ConvertStructs_def Kind_def ConvertStructs_fields_no_tags)

theorem untagged_fields_copy_nothing_witness:
  "ValueOf ann = ann \<and> TKind Person = KStruct \<and> Kind (Zero PersonDTO) = KStruct \<and>
   list_all (\<lambda>f. Tag_Get (fTag f) [] = []) (tfields Person) \<and>
   ConvertStructs (Some ann) (Some (Zero PersonDTO)) [] =
     (Some (VStruct PersonDTO [VScalar string_t (LString []), VScalar int_t (LInt 0)]), None)"
  using untagged_fields_copy_nothing [of ann Person
      "[VScalar string_t (LString ''Ann''), VScalar int_t (LInt 30)]" "Zero PersonDTO" "[]"]
  by (simp add: ann_def Person_def PersonDTO_def example_types reflect_defs)

text \<open>
  Claim C3 says that under a non-empty \<open>tagName\<close> a field without that tag is matched by its
  name.  The round of such a field ends at line 100, before lines 109 to 111 could fall back
  to the name: the field is skipped, while its tagged neighbours are converted.
\<close>

theorem field_without_tag_is_skipped:
  "Tag_Get (fTag sourceTypeField) tagName = [] \<Longrightarrow>
   ConvertStructs_field sourceTypeField sourceField targetVal tagName = (targetVal, None)"
  by (simp add: ConvertStructs_field_def ConvertStructs_match_no_tag)

theorem field_without_tag_is_skipped_witness:
  "Tag_Get (fTag (SField ''B'' int_t [] True)) ''json'' = [] \<and>
   FieldByName (Zero Target3) ''B'' = Inr (Some \<lparr>slot = 1, slotType = int_t, settable = True\<rparr>) \<and>
   ConvertStructs_field (SField ''B'' int_t [] True) (VScalar int_t (LInt 2))
       (VStruct Target3 [VScalar int_t (LInt 1), VScalar int_t (LInt 0)]) ''json'' =
     (VStruct Target3 [VScalar int_t (LInt 1), VScalar int_t (LInt 0)], None) \<and>
   ConvertStructs (Some source3) (Some (Zero Target3)) ''json'' =
     (Some (VStruct Target3 [VScalar int_t (LInt 1), VScalar int_t (LInt 0)]), None)"
  using field_without_tag_is_skipped [of "SField ''B'' int_t [] True" "''json''" "VScalar int_t (LInt 2)"
      "VStruct Target3 [VScalar int_t (LInt 1), VScalar int_t (LInt 0)]"]
  by (simp add: source3_def Source3_def Target3_def example_types reflect_defs converter_defs)

section \<open>A struct converted into a scalar type\<close>

text \<open>
  Claim C9 says that a struct source paired with a scalar target type ends in a reported
  error.  \<open>convertValue\<close> sends every struct to \<open>convertStruct\<close>, which, unlike \<open>convertSlice\<close>
  and \<open>convertMap\<close>, does not look at the kind of the target type: with a first field that is
  exported, \<^verbatim>\<open>FieldByName\<close> is called on a scalar and panics.  (A struct without exported
  fields is converted into the zero scalar, without an error.)
\<close>

theorem struct_into_scalar_panics:
  "tfields S = f # fs \<Longrightarrow> fExported f \<Longrightarrow>
   convertValue (VStruct S (v # vs)) (Basic k n) =
     Inl (Panic ''reflect: call of reflect.Value.FieldByName on non-struct Value'')"
  by (cases S) (simp_all add: convertValue.simps convertStruct.simps Kind_def FieldByName_def)

theorem struct_into_scalar_panics_witness:
  "tfields Inner9 = [SField ''X'' int_t [] True] \<and> fExported (SField ''X'' int_t [] True) \<and>
   convertValue (VStruct Inner9 [VScalar int_t (LInt 7)]) int_t =
     Inl (Panic ''reflect: call of reflect.Value.FieldByName on non-struct Value'') \<and>
   ConvertStructs (Some source9) (Some (Zero Target9)) ''conv'' =
     (Some (Zero Target9), Some (Panic ''reflect: call of reflect.Value.FieldByName on non-struct Value'')) \<and>
   convertValue (VStruct (StructT ''Empty'' []) []) int_t = Inr (VScalar int_t (LInt 0))"
  using struct_into_scalar_panics [of Inner9 "SField ''X'' int_t [] True" "[]" "VScalar int_t (LInt 7)" "[]" SInt "''int''"]
  by (simp add: source9_def Source9_def Target9_def Inner9_def example_types reflect_defs converter_defs)

section \<open>Pointers, absent sources and scalars\<close>

text \<open>
  The \<open>convertValue\<close> of \<^verbatim>\<open>converter.go\<close> has three strategies and one default, lines 17 to
  23, for a source of every other kind: pointers, interfaces, arrays and the zero Value as
  well as scalars.  The default neither dereferences, nor allocates, nor coerces.
\<close>

lemma convertValue_default:
  "TypeOf source = Some S \<Longrightarrow> Kind source \<notin> {KStruct, KSlice, KMap} \<Longrightarrow>
   convertValue source targetType =
     (if AssignableTo S targetType then Inr source
      else Inl (Err ''incompatible types or unsupported conversion''))"
  by (cases "Kind source") (auto simp add: convertValue.simps)

lemma other_kind_not_assignable:
  "TKind S \<noteq> TKind T \<Longrightarrow> TKind T \<noteq> KInterface \<Longrightarrow> \<not> AssignableTo S T"
  by (auto simp add: AssignableTo_def directlyAssignable_def implements_def)

lemma Kind_TypeOf: "Kind source \<noteq> KInvalid \<Longrightarrow> \<exists>S. TypeOf source = Some S \<and> TKind S = Kind source"
  by (cases "TypeOf source") (simp_all add: Kind_def)

text \<open>
  Claim C4 says that \<open>convertValue\<close> wraps the conversion of the source in a new pointer when
  the target type is a pointer type, and converts what a pointer points to when only the
  source is one.  It does neither: a pointer to an \<^verbatim>\<open>In\<close> is not converted into an \<^verbatim>\<open>Out\<close> nor
  into a pointer to an \<^verbatim>\<open>Out\<close>, and an \<^verbatim>\<open>int\<close> not into a pointer to an \<^verbatim>\<open>int\<close>; each call returns
  the error of line 23.
\<close>

theorem indirection_counterexample:
  "convertValue (VPtr (PtrTo In4) in4) Out4 =
     Inl (Err ''incompatible types or unsupported conversion'') \<and>
   convertValue (VPtr (PtrTo In4) in4) (PtrTo Out4) =
     Inl (Err ''incompatible types or unsupported conversion'') \<and>
   convertValue (VScalar int_t (LInt 5)) (PtrTo int_t) =
     Inl (Err ''incompatible types or unsupported conversion'')"
  by (simp add: in4_def In4_def Out4_def example_types reflect_defs converter_defs)

text \<open>
  Claim C4, amended.  \<open>convertValue\<close> resolves no indirection.  A pointer as source is
  returned as it is when its type is assignable to the target type, and the call fails with
  the error of line 23 otherwise, as it always does when the target type is neither a
  pointer type nor an interface: the pointer is not dereferenced.  With a pointer type as
  target, a source of a kind other than struct, slice and map is likewise returned as it is
  or refused, and refused whenever it is a value that is not a pointer: nothing is allocated.
  A slice is then refused by \<open>convertSlice\<close> and a map by \<open>convertMap\<close>.
\<close>

theorem indirection_is_not_resolved:
  "(Kind source = KPtr \<and> TypeOf source = Some S \<longrightarrow>
      convertValue source targetType =
        (if AssignableTo S targetType then Inr source
         else Inl (Err ''incompatible types or unsupported conversion''))) \<and>
   (Kind source = KPtr \<and> TKind targetType \<notin> {KPtr, KInterface} \<longrightarrow>
      convertValue source targetType =
        Inl (Err ''incompatible types or unsupported conversion'')) \<and>
   (TKind targetType = KPtr \<and> TypeOf source = Some S \<and> Kind source \<notin> {KStruct, KSlice, KMap} \<longrightarrow>
      convertValue source targetType =
        (if AssignableTo S targetType then Inr source
         else Inl (Err ''incompatible types or unsupported conversion''))) \<and>
   (TKind targetType = KPtr \<and> Kind source \<notin> {KInvalid, KPtr, KStruct, KSlice, KMap} \<longrightarrow>
      convertValue source targetType =
        Inl (Err ''incompatible types or unsupported conversion'')) \<and>
   (TKind targetType = KPtr \<and> Kind source = KSlice \<longrightarrow>
      convertValue source targetType = Inl (Err ''target type is not a slice'')) \<and>
   (TKind targetType = KPtr \<and> Kind source = KMap \<longrightarrow>
      convertValue source targetType = Inl (Err ''target type is not a map''))"
proof (intro conjI impI)
  assume "Kind source = KPtr \<and> TypeOf source = Some S"
  then show "convertValue source targetType =
        (if AssignableTo S targetType then Inr source
         else Inl (Err ''incompatible types or unsupported conversion''))"
    by (simp add: convertValue_default)
next
  assume a: "Kind source = KPtr \<and> TKind targetType \<notin> {KPtr, KInterface}"
  then obtain S' where S': "TypeOf source = Some S'" "TKind S' = KPtr"
    using Kind_TypeOf [of source] by auto
  with a have "\<not> AssignableTo S' targetType"
    using other_kind_not_assignable [of S' targetType] by auto
  with a S' show "convertValue source targetType =
        Inl (Err ''incompatible types or unsupported conversion'')"
    by (simp add: convertValue_default)
next
  assume "TKind targetType = KPtr \<and> TypeOf source = Some S \<and> Kind source \<notin> {KStruct, KSlice, KMap}"
  then show "convertValue source targetType =
        (if AssignableTo S targetType then Inr source
         else Inl (Err ''incompatible types or unsupported conversion''))"
    by (simp add: convertValue_default)
next
  assume a: "TKind targetType = KPtr \<and> Kind source \<notin> {KInvalid, KPtr, KStruct, KSlice, KMap}"
  then obtain S' where S': "TypeOf source = Some S'" "TKind S' = Kind source"
    using Kind_TypeOf [of source] by auto
  with a have "\<not> AssignableTo S' targetType"
    using other_kind_not_assignable [of S' targetType] by auto
  with a S' show "convertValue source targetType =
        Inl (Err ''incompatible types or unsupported conversion'')"
    by (simp add: convertValue_default)
next
  assume "TKind targetType = KPtr \<and> Kind source = KSlice"
  then show "convertValue source targetType = Inl (Err ''target type is not a slice'')"
    by (cases targetType) (simp_all add: convertValue.simps convertSlice.simps)
next
  assume "TKind targetType = KPtr \<and> Kind source = KMap"
  then show "convertValue source targetType = Inl (Err ''target type is not a map'')"
    by (cases targetType) (simp_all add: convertValue.simps convertMap.simps)
qed

theorem indirection_is_not_resolved_witness:
  "Kind (VPtr (PtrTo In4) in4) = KPtr \<and> TKind (PtrTo Out4) = KPtr \<and>
   convertValue (VPtr (PtrTo In4) in4) (PtrTo In4) = Inr (VPtr (PtrTo In4) in4) \<and>
   convertValue (VPtr (PtrTo In4) in4) Out4 =
     Inl (Err ''incompatible types or unsupported conversion'') \<and>
   convertValue (VScalar int_t (LInt 5)) (PtrTo int_t) =
     Inl (Err ''incompatible types or unsupported conversion'') \<and>
   convertValue ints (PtrTo (SliceOf int_t)) = Inl (Err ''target type is not a slice'') \<and>
   convertValue ages (PtrTo (MapOf string_t int_t)) = Inl (Err ''target type is not a map'')"
  using indirection_is_not_resolved [where source = "VPtr (PtrTo In4) in4" and S = "PtrTo In4"
      and targetType = "PtrTo In4"]
    indirection_is_not_resolved [where source = "VPtr (PtrTo In4) in4" and S = "PtrTo In4"
      and targetType = Out4]
    indirection_is_not_resolved [where source = "VScalar int_t (LInt 5)" and S = int_t
      and targetType = "PtrTo int_t"]
    indirection_is_not_resolved [where source = ints and targetType = "PtrTo (SliceOf int_t)"]
    indirection_is_not_resolved [where source = ages and targetType = "PtrTo (MapOf string_t int_t)"]
  by (simp add: in4_def In4_def Out4_def ints_def ages_def example_types reflect_defs)

text \<open>
  Claim C5 says that \<open>convertValue\<close> turns an absent source into the zero value of the target
  type.  It has no case for the zero Value: \<^verbatim>\<open>source.Kind()\<close> is \<^verbatim>\<open>Invalid\<close>, the default is
  taken, and \<^verbatim>\<open>source.Type()\<close> of line 18 panics.
\<close>

theorem absent_source_counterexample:
  "convertValue VInvalid int_t = Inl (Panic ''reflect: call of reflect.Value.Type on zero Value'') \<and>
   convertValue VInvalid int_t \<noteq> Inr (Zero int_t)"
  by (simp add: convertValue.simps Kind_def)

text \<open>
  Claim C5, amended.  For every target type, \<open>convertValue\<close> applied to an absent source
  returns nothing: it panics.  No recursion ends there.  Data that is missing reaches
  \<open>convertValue\<close> as a nil pointer, which is not dereferenced: it is returned as it is when
  its type is assignable to the target type (it is the zero value of the target type when
  the two are the same), and refused with the error of line 23 otherwise.
\<close>

theorem absent_source_panics:
  "convertValue VInvalid targetType =
     Inl (Panic ''reflect: call of reflect.Value.Type on zero Value'') \<and>
   convertValue (VNil (PtrTo S)) targetType =
     (if AssignableTo (PtrTo S) targetType then Inr (VNil (PtrTo S))
      else Inl (Err ''incompatible types or unsupported conversion'')) \<and>
   convertValue (VNil (PtrTo S)) (PtrTo S) = Inr (Zero (PtrTo S))"
  by (simp add: convertValue.simps Kind_def AssignableTo_def directlyAssignable_def)

text \<open>
  Claim C6 says that a scalar whose type is not assignable to the target type is coerced
  where the run-time system declares the two types convertible.  \<open>convertValue\<close> never calls
  \<^verbatim>\<open>ConvertibleTo\<close> or \<^verbatim>\<open>Convert\<close>: an \<^verbatim>\<open>int32\<close> is convertible to \<^verbatim>\<open>int64\<close> and not assignable
  to it, and its conversion is refused.
\<close>

theorem coercion_counterexample:
  "scalarConvertible SInt32 SInt64 \<and> \<not> AssignableTo int32_t int64_t \<and>
   convertValue (VScalar int32_t (LInt 5)) int64_t =
     Inl (Err ''incompatible types or unsupported conversion'')"
  by (simp add: example_types reflect_defs converter_defs scalarConvertible_def isNumeric_def)

text \<open>
  Claim C6, amended.  For every source that is a value of a kind other than struct, slice
  and map, and every target type, \<open>convertValue\<close> returns the source as it is when its type
  is assignable to the target type, and fails otherwise with the error
  \<^verbatim>\<open>incompatible types or unsupported conversion\<close>; it coerces nothing.
\<close>

theorem scalar_assigned_or_refused:
  "TypeOf source = Some S \<Longrightarrow> Kind source \<notin> {KStruct, KSlice, KMap} \<Longrightarrow>
   convertValue source targetType =
     (if AssignableTo S targetType then Inr source
      else Inl (Err ''incompatible types or unsupported conversion''))"
  by (rule convertValue_default)

theorem scalar_assigned_or_refused_witness:
  "Kind (VScalar int_t (LInt 5)) = KScalar SInt \<and>
   convertValue (VScalar int_t (LInt 5)) int_t = Inr (VScalar int_t (LInt 5)) \<and>
   convertValue (VScalar int_t (LInt 5)) any_t = Inr (VScalar int_t (LInt 5)) \<and>
   convertValue (VScalar int32_t (LInt 5)) int64_t =
     Inl (Err ''incompatible types or unsupported conversion'') \<and>
   convertValue (VScalar string_t (LString ''five'')) int_t =
     Inl (Err ''incompatible types or unsupported conversion'')"
  using scalar_assigned_or_refused [of "VScalar int_t (LInt 5)" int_t int_t]
    scalar_assigned_or_refused [of "VScalar int_t (LInt 5)" int_t any_t]
    scalar_assigned_or_refused [of "VScalar int32_t (LInt 5)" int32_t int64_t]
    scalar_assigned_or_refused [of "VScalar string_t (LString ''five'')" string_t int_t]
  by (simp add: example_types reflect_defs)

end
